theory Spec2Isabelle
  imports Main "HOL-Library.Sublist"
begin

section \<open>Python text\<close>

text \<open>
  A Python \<open>str\<close> is a sequence of Unicode code points. The program's messages and its
  page template contain characters beyond ASCII, and \<open>str.strip\<close> decides on code points,
  so a string is modelled as the list of its code points. \<open>lit\<close> turns an ASCII literal
  into such a list.
\<close>

type_synonym codepoint = nat
type_synonym pystr = "codepoint list"

definition lit :: "string \<Rightarrow> pystr" where
  "lit s = map of_char s"

definition NL :: codepoint where "NL = 10"
definition TAB :: codepoint where "TAB = 9"
definition CR :: codepoint where "CR = 13"
definition SPACE :: codepoint where "SPACE = 32"
definition QUOTE :: codepoint where "QUOTE = 39"
definition SLASH :: codepoint where "SLASH = 47"
definition BACKSLASH :: codepoint where "BACKSLASH = 92"

text \<open>
  \<open>str.replace(old, new)\<close>: the occurrences of \<open>old\<close> are found from the left and do not
  overlap. With an empty \<open>old\<close>, Python puts \<open>new\<close> before every character and at the end.
\<close>

fun str_replace :: "pystr \<Rightarrow> pystr \<Rightarrow> pystr \<Rightarrow> pystr" where
  "str_replace old new [] = (if old = [] then new else [])"
| "str_replace old new (c # cs) =
     (if old = [] then new @ c # str_replace old new cs
      else if prefix old (c # cs) then new @ str_replace old new (drop (length old) (c # cs))
      else c # str_replace old new cs)"

text \<open>
  \<open>str.isspace\<close> on one character, as CPython's \<open>_PyUnicode_IsWhitespace\<close> lists them;
  \<open>str.strip()\<close> without argument removes these characters from both ends.
\<close>

definition py_isspace :: "codepoint \<Rightarrow> bool" where
  "py_isspace c \<longleftrightarrow>
     (9 \<le> c \<and> c \<le> 13) \<or> (28 \<le> c \<and> c \<le> 32) \<or> c = 133 \<or> c = 160 \<or> c = 5760
     \<or> (8192 \<le> c \<and> c \<le> 8202) \<or> c = 8232 \<or> c = 8233 \<or> c = 8239 \<or> c = 8287
     \<or> c = 12288"

definition py_strip :: "pystr \<Rightarrow> pystr" where
  "py_strip s = rev (dropWhile py_isspace (rev (dropWhile py_isspace s)))"

text \<open>\<open>str(n)\<close> and \<open>f"{n}"\<close> for an integer: decimal digits, a minus sign when negative.\<close>

fun digits :: "nat \<Rightarrow> pystr" where
  "digits n = (if n < 10 then [48 + n] else digits (n div 10) @ [48 + n mod 10])"

declare digits.simps [simp del]

definition str_int :: "int \<Rightarrow> pystr" where
  "str_int i = (if i < 0 then 45 # digits (nat (- i)) else digits (nat i))"

text \<open>\<open>sep.join(parts)\<close>, \<open>s.split(sep)\<close> for a one-character separator, \<open>s.endswith(t)\<close>.\<close>

fun str_join :: "pystr \<Rightarrow> pystr list \<Rightarrow> pystr" where
  "str_join sep [] = []"
| "str_join sep [p] = p"
| "str_join sep (p # q # ps) = p @ sep @ str_join sep (q # ps)"

fun split_on :: "codepoint \<Rightarrow> pystr \<Rightarrow> pystr list" where
  "split_on d [] = [[]]"
| "split_on d (c # cs) =
     (if c = d then [] # split_on d cs
      else (case split_on d cs of [] \<Rightarrow> [[c]] | p # ps \<Rightarrow> (c # p) # ps))"

definition ends_with :: "pystr \<Rightarrow> pystr \<Rightarrow> bool" where
  "ends_with s t \<longleftrightarrow> length t \<le> length s \<and> drop (length s - length t) s = t"

section \<open>Paths\<close>

text \<open>
  A \<open>pathlib.Path\<close> on a POSIX system: relative or absolute, and its components.
  \<open>parse_path\<close> is \<open>Path(s)\<close>: empty components and \<open>.\<close> are dropped (a root written
  with exactly two slashes, which pathlib keeps apart, is read as the ordinary root).
  \<open>path_div\<close> is the operator \<open>/\<close> with a string on the right, \<open>path_child\<close> the path of
  a directory entry as \<open>glob\<close> makes it, \<open>path_name\<close> the attribute \<open>.name\<close>, \<open>path_str\<close> the
  conversion \<open>str(p)\<close>.
\<close>

datatype ppath = Rel "pystr list" | Abs "pystr list"

fun parts :: "ppath \<Rightarrow> pystr list" where
  "parts (Rel ps) = ps"
| "parts (Abs ps) = ps"

definition parse_path :: "pystr \<Rightarrow> ppath" where
  "parse_path s =
     (let ps = filter (\<lambda>p. p \<noteq> [] \<and> p \<noteq> lit ''.'') (split_on SLASH s)
      in case s of [] \<Rightarrow> Rel ps | c # _ \<Rightarrow> if c = SLASH then Abs ps else Rel ps)"

definition path_div :: "ppath \<Rightarrow> pystr \<Rightarrow> ppath" where
  "path_div p s =
     (case parse_path s of
        Abs qs \<Rightarrow> Abs qs
      | Rel qs \<Rightarrow> (case p of Rel ps \<Rightarrow> Rel (ps @ qs) | Abs ps \<Rightarrow> Abs (ps @ qs)))"

definition path_child :: "ppath \<Rightarrow> pystr \<Rightarrow> ppath" where
  "path_child p n = (case p of Rel ps \<Rightarrow> Rel (ps @ [n]) | Abs ps \<Rightarrow> Abs (ps @ [n]))"

definition path_name :: "ppath \<Rightarrow> pystr" where
  "path_name p = (case parts p of [] \<Rightarrow> [] | _ # _ \<Rightarrow> last (parts p))"

definition path_str :: "ppath \<Rightarrow> pystr" where
  "path_str p =
     (case p of
        Rel ps \<Rightarrow> (if ps = [] then lit ''.'' else str_join [SLASH] ps)
      | Abs ps \<Rightarrow> SLASH # str_join [SLASH] ps)"

section \<open>The design specification (generate_config_yaml, lines 125 to 148)\<close>

text \<open>
  The document handed to \<open>yaml.dump\<close> is a tree of dictionaries, lists, strings and
  booleans. A dictionary keeps its keys in insertion order (\<open>sort_keys=False\<close>), so it is
  an association list; \<open>dict_set\<close> is the assignment \<open>d[k] = v\<close>.
\<close>

datatype yaml = YStr pystr | YBool bool | YSeq "yaml list" | YMap "(pystr \<times> yaml) list"

fun dict_set :: "pystr \<Rightarrow> yaml \<Rightarrow> (pystr \<times> yaml) list \<Rightarrow> (pystr \<times> yaml) list" where
  "dict_set k v [] = [(k, v)]"
| "dict_set k v ((k', v') # kvs) =
     (if k' = k then (k, v) # kvs else (k', v') # dict_set k v kvs)"

text \<open>
  The value of \<open>config_data\<close> at line 148. The length bounds are integers, the cyclic
  flag a boolean, the chain id and the hotspot text strings, as the form delivers them.
  The test \<open>hotspots_text and hotspots_text.strip()\<close> holds when both strings are non-empty.
\<close>

definition config_data :: "ppath \<Rightarrow> pystr \<Rightarrow> int \<Rightarrow> int \<Rightarrow> pystr \<Rightarrow> bool \<Rightarrow> yaml" where
  "config_data pdb_path target_chain_id binder_len_min binder_len_max hotspots_text is_cyclic =
     (let protein0 =
            [(lit ''id'', YStr (lit ''B'')),
             (lit ''sequence'',
                YStr (str_int binder_len_min @ lit ''..'' @ str_int binder_len_max))];
          protein =
            (if is_cyclic then dict_set (lit ''cyclic'') (YBool True) protein0 else protein0);
          binder_entity = YMap [(lit ''protein'', YMap protein)];
          file0 =
            [(lit ''path'', YStr (path_name pdb_path)),
             (lit ''include'', YSeq [YMap [(lit ''chain'', YMap [(lit ''id'', YStr target_chain_id)])]])];
          file =
            (if hotspots_text \<noteq> [] \<and> py_strip hotspots_text \<noteq> [] then
               (let clean_hotspots = str_replace (lit '' '') [] hotspots_text
                in dict_set (lit ''binding_types'')
                     (YSeq [YMap [(lit ''chain'', YMap [(lit ''id'', YStr target_chain_id)]),
                                  (lit ''binding'', YStr clean_hotspots)]]) file0)
             else file0);
          target_entity = YMap [(lit ''file'', YMap file)]
      in YMap [(lit ''entities'', YSeq [binder_entity, target_entity])])"

text \<open>Reading the document back: a key of a dictionary, an index of a list.\<close>

fun yget :: "pystr \<Rightarrow> yaml \<Rightarrow> yaml option" where
  "yget k (YMap kvs) = map_of kvs k"
| "yget k _ = None"

fun yidx :: "nat \<Rightarrow> yaml \<Rightarrow> yaml option" where
  "yidx i (YSeq xs) = (if i < length xs then Some (xs ! i) else None)"
| "yidx i _ = None"

fun ystr :: "yaml \<Rightarrow> pystr option" where
  "ystr (YStr s) = Some s"
| "ystr _ = None"

definition binder_field :: "pystr \<Rightarrow> yaml \<Rightarrow> yaml option" where
  "binder_field k doc =
     Option.bind (Option.bind (Option.bind (yget (lit ''entities'') doc) (yidx 0))
       (yget (lit ''protein''))) (yget k)"

definition target_field :: "pystr \<Rightarrow> yaml \<Rightarrow> yaml option" where
  "target_field k doc =
     Option.bind (Option.bind (Option.bind (yget (lit ''entities'') doc) (yidx 1))
       (yget (lit ''file''))) (yget k)"

text \<open>The reading rule for the cyclic flag: present means cyclic, absent means not.\<close>

definition read_cyclic :: "yaml \<Rightarrow> bool" where
  "read_cyclic doc \<longleftrightarrow> binder_field (lit ''cyclic'') doc \<noteq> None"

text \<open>The binding string of the first (and only) annotation of the target entity.\<close>

definition binding_annotation :: "yaml \<Rightarrow> pystr option" where
  "binding_annotation doc =
     Option.bind (Option.bind (Option.bind (target_field (lit ''binding_types'') doc) (yidx 0))
       (yget (lit ''binding''))) ystr"

text \<open>
  The wording of the specification for the hotspot text, to be compared with what
  \<open>config_data\<close> stores: the text with every whitespace character removed.
\<close>

definition spec_strip_all_whitespace :: "pystr \<Rightarrow> pystr" where
  "spec_strip_all_whitespace s = filter (\<lambda>c. \<not> py_isspace c) s"

section \<open>The viewer document (get_interactive_3dmol_iframe)\<close>

text \<open>
  Line 31: the structure text is prepared for a single-quoted JavaScript string by two
  replacements, first every newline by backslash and \<open>n\<close>, then every single quote by
  backslash and quote.
\<close>

definition escape_pdb :: "pystr \<Rightarrow> pystr" where
  "escape_pdb raw_pdb =
     str_replace [QUOTE] [BACKSLASH, QUOTE]
       (str_replace [NL] (BACKSLASH # lit ''n'') raw_pdb)"

text \<open>
  \<open>html.escape\<close> with its default \<open>quote=True\<close>: five replacements, the ampersand first.
\<close>

definition html_escape :: "pystr \<Rightarrow> pystr" where
  \<open>html_escape s =
     str_replace [QUOTE] (lit ''&#x27;'')
       (str_replace (lit ''"'') (lit ''&quot;'')
         (str_replace (lit ''>'') (lit ''&gt;'')
           (str_replace (lit ''<'') (lit ''&lt;'')
             (str_replace (lit ''&'') (lit ''&amp;'') s))))\<close>

text \<open>
  The page template of lines 34 to 106, with the doubled braces of the f-string written
  once: the text before the inserted structure text and the text after it.
\<close>

definition viewer_head :: pystr where
  \<open>viewer_head = concat
    [[NL],
     lit ''<!DOCTYPE html>'' @ [NL],
     lit ''<html>'' @ [NL],
     lit ''<head>'' @ [NL],
     lit ''  <meta charset="utf-8">'' @ [NL],
     lit ''  <style>'' @ [NL],
     lit ''    html, body { margin: 0; padding: 0; height: 100%; width: 100%; overflow: hidden; }'' @ [NL],
     lit ''    #viewer { width: 100%; height: 100%; position: relative; }'' @ [NL],
     lit ''    /* '' @ [31616, 21333, 30340] @ lit '' Loading '' @ [25552, 31034] @ lit '' */'' @ [NL],
     lit ''    .loading { position: absolute; top: 50%; left: 50%; transform: translate(-50%, -50%); font-family: sans-serif; color: #666; }'' @ [NL],
     lit ''  </style>'' @ [NL],
     lit ''  <script src="https://3Dmol.org/build/3Dmol-min.js"></script>'' @ [NL],
     lit ''</head>'' @ [NL],
     lit ''<body>'' @ [NL],
     lit ''  <div id="viewer"><div class="loading">'' @ [27491, 22312, 28210, 26579, 32467, 26500] @ lit ''...</div></div>'' @ [NL],
     lit ''  <script>'' @ [NL],
     lit ''    document.addEventListener("DOMContentLoaded", function() {'' @ [NL],
     lit ''        let element = document.getElementById('viewer');'' @ [NL],
     lit ''        let config = { backgroundColor: 'white' };'' @ [NL],
     lit ''        let viewer = $3Dmol.createViewer(element, config);'' @ [NL],
     lit ''        '' @ [NL],
     lit ''        let pdbData = '' @ [QUOTE]]\<close>

definition viewer_tail :: pystr where
  \<open>viewer_tail = concat
    [[QUOTE] @ lit '';'' @ [NL],
     lit ''        '' @ [NL],
     lit ''        // '' @ [21152, 36733, 27169, 22411] @ [NL],
     lit ''        viewer.addModel(pdbData, "pdb");'' @ [NL],
     lit ''        '' @ [NL],
     lit ''        // --- '' @ [26679, 24335, 35774, 32622] @ lit '' ---'' @ [NL],
     lit ''        // 1. '' @ [21345, 36890, 27169, 24335] @ lit '' (Cartoon)'' @ [NL],
     lit ''        viewer.setStyle({}, {cartoon: {color: 'spectrum'}});'' @ [NL],
     lit ''        '' @ [NL],
     lit ''        // 2. '' @ [21516, 26102, 26174, 31034, 20391, 38142] @ lit '' (Stick) - '' @ [21487, 36873, 65292, 20026, 20102, 26356, 28165, 26970, 30475, 28165, 27531, 22522] @ [NL],
     lit ''        // viewer.addStyle({}, {stick: {radius: 0.1, colorscheme: 'Jmol'}});'' @ [NL],
     [NL],
     lit ''        // --- '' @ [26680, 24515, 20132, 20114, 65306, 40736, 26631, 24748, 20572] @ lit '' (Hover) ---'' @ [NL],
     lit ''        viewer.setHoverable({}, true, '' @ [NL],
     lit ''            function(atom, viewer, event, container) {'' @ [NL],
     lit ''                // '' @ [40736, 26631, 31227, 20837] @ lit '': '' @ [28155, 21152, 26631, 31614] @ [NL],
     lit ''                if(!atom.label) {'' @ [NL],
     lit ''                    // '' @ [26500, 36896, 26631, 31614, 25991, 26412] @ lit '': "ResidueName Number" ('' @ [20363, 22914] @ lit '': ALA 15)'' @ [NL],
     lit ''                    let labelText = atom.resn + " " + atom.resi;'' @ [NL],
     lit ''                    if(atom.chain) labelText += ":" + atom.chain; // '' @ [22914, 26524, 26377, 22810, 38142, 65292, 21152, 19978, 38142] @ lit ''ID'' @ [NL],
     lit ''                    '' @ [NL],
     lit ''                    atom.label = viewer.addLabel(labelText, {'' @ [NL],
     lit ''                        position: atom, '' @ [NL],
     lit ''                        backgroundColor: 'rgba(0,0,0, 0.7)', // '' @ [21322, 36879, 26126, 40657, 24213] @ [NL],
     lit ''                        fontColor: 'white','' @ [NL],
     lit ''                        fontSize: 12,'' @ [NL],
     lit ''                        borderRadius: 4,'' @ [NL],
     lit ''                        offset: {x: 0, y: -10} // '' @ [31245, 24494, 21521, 19978, 20559, 31227] @ [NL],
     lit ''                    });'' @ [NL],
     lit ''                }'' @ [NL],
     lit ''            },'' @ [NL],
     lit ''            function(atom, viewer) {'' @ [NL],
     lit ''                // '' @ [40736, 26631, 31227, 20986] @ lit '': '' @ [21024, 38500, 26631, 31614] @ [NL],
     lit ''                if(atom.label) {'' @ [NL],
     lit ''                    viewer.removeLabel(atom.label);'' @ [NL],
     lit ''                    delete atom.label;'' @ [NL],
     lit ''                }'' @ [NL],
     lit ''            }'' @ [NL],
     lit ''        );'' @ [NL],
     [NL],
     lit ''        // --- '' @ [28210, 26579] @ lit '' ---'' @ [NL],
     lit ''        viewer.zoomTo();'' @ [NL],
     lit ''        viewer.render();'' @ [NL],
     lit ''        '' @ [NL],
     lit ''        // '' @ [31227, 38500] @ lit '' Loading '' @ [25991, 23383] @ [NL],
     lit ''        let loading = document.querySelector('.loading');'' @ [NL],
     lit ''        if(loading) loading.style.display = 'none';'' @ [NL],
     lit ''    });'' @ [NL],
     lit ''  </script>'' @ [NL],
     lit ''</body>'' @ [NL],
     lit ''</html>'' @ [NL]]\<close>

definition iframe_head :: pystr where
  \<open>iframe_head = concat
    [[NL],
     lit ''        <iframe '' @ [NL],
     lit ''            srcdoc="'']\<close>

definition iframe_tail :: pystr where
  \<open>iframe_tail = concat
    [lit ''" '' @ [NL],
     lit ''            width="100%" '' @ [NL],
     lit ''            height="600px" '' @ [NL],
     lit ''            style="border: 1px solid #ddd; border-radius: 8px; box-shadow: 0 2px 5px rgba(0,0,0,0.05);">'' @ [NL],
     lit ''        </iframe>'' @ [NL],
     lit ''        '']\<close>

definition inner_html :: "pystr \<Rightarrow> pystr" where
  "inner_html escaped_pdb = viewer_head @ escaped_pdb @ viewer_tail"

definition iframe_html :: "pystr \<Rightarrow> pystr" where
  "iframe_html inner = iframe_head @ html_escape inner @ iframe_tail"

text \<open>
  How a JavaScript engine reads the single-quoted string literal that the template opens
  before the inserted text (ECMAScript, \<open>StringLiteral\<close>): \<open>js_string_end cs i\<close> scans the
  characters after the opening quote and returns the position of the quote that closes the
  literal. A backslash takes the following character with it, a quote that is not taken by
  a backslash closes the literal, and a raw line end or the end of the text before the
  closing quote is a syntax error (\<open>None\<close>).
\<close>

fun js_string_end :: "pystr \<Rightarrow> nat \<Rightarrow> nat option" where
  "js_string_end [] i = None"
| "js_string_end (c # cs) i =
     (if c = QUOTE then Some i
      else if c = NL \<or> c = CR then None
      else if c = BACKSLASH then
        (case cs of [] \<Rightarrow> None | d # ds \<Rightarrow> js_string_end ds (i + 2))
      else js_string_end cs (i + 1))"

section \<open>The hover protocol (lines 68 to 93)\<close>

text \<open>
  The two callbacks given to \<open>setHoverable\<close> change two things: the \<open>label\<close> property of the
  atom they are called on, and the labels the viewer shows. Atoms are objects shared with
  the viewer, so the state holds them in a store indexed by atom identity. The viewer's
  \<open>addLabel\<close> makes a new label, shows it and returns it; \<open>removeLabel\<close> takes that label
  away. A label is known by its handle.
\<close>

record atom =
  atom_resn :: pystr
  atom_resi :: int
  atom_chain :: pystr
  atom_label :: "nat option"

record label_spec =
  label_text :: pystr
  label_position :: nat
  backgroundColor :: pystr
  fontColor :: pystr
  fontSize :: int
  borderRadius :: int
  label_offset :: "int \<times> int"

record viewer =
  atoms :: "nat \<Rightarrow> atom"
  labels :: "(nat \<times> label_spec) list"
  next_handle :: nat

definition addLabel :: "label_spec \<Rightarrow> viewer \<Rightarrow> nat \<times> viewer" where
  "addLabel l v =
     (next_handle v,
      v\<lparr>labels := labels v @ [(next_handle v, l)], next_handle := Suc (next_handle v)\<rparr>)"

definition removeLabel :: "nat \<Rightarrow> viewer \<Rightarrow> viewer" where
  "removeLabel h v = v\<lparr>labels := filter (\<lambda>hl. fst hl \<noteq> h) (labels v)\<rparr>"

text \<open>
  Pointer enters atom \<open>a\<close> (lines 69 to 85). \<open>!atom.label\<close> holds when the property is not
  set; \<open>atom.chain\<close> counts as present when it is a non-empty string.
\<close>

definition hover_enter :: "nat \<Rightarrow> viewer \<Rightarrow> viewer" where
  "hover_enter a v =
     (let at = atoms v a in
      if atom_label at = None then
        (let labelText0 = atom_resn at @ lit '' '' @ str_int (atom_resi at);
             labelText =
               (if atom_chain at \<noteq> [] then labelText0 @ lit '':'' @ atom_chain at
                else labelText0);
             (h, v') =
               addLabel \<lparr>label_text = labelText, label_position = a,
                          backgroundColor = lit ''rgba(0,0,0, 0.7)'', fontColor = lit ''white'',
                          fontSize = 12, borderRadius = 4, label_offset = (0, - 10)\<rparr> v
         in v'\<lparr>atoms := (atoms v')(a := at\<lparr>atom_label := Some h\<rparr>)\<rparr>)
      else v)"

text \<open>Pointer leaves atom \<open>a\<close> (lines 86 to 92).\<close>

definition hover_leave :: "nat \<Rightarrow> viewer \<Rightarrow> viewer" where
  "hover_leave a v =
     (case atom_label (atoms v a) of
        None \<Rightarrow> v
      | Some h \<Rightarrow>
          (let v' = removeLabel h v
           in v'\<lparr>atoms := (atoms v')(a := (atoms v' a)\<lparr>atom_label := None\<rparr>)\<rparr>))"

datatype hover_event = Enter nat | Leave nat

fun hover_step :: "viewer \<Rightarrow> hover_event \<Rightarrow> viewer" where
  "hover_step v (Enter a) = hover_enter a v"
| "hover_step v (Leave a) = hover_leave a v"

definition run_events :: "hover_event list \<Rightarrow> viewer \<Rightarrow> viewer" where
  "run_events evs v = foldl hover_step v evs"

text \<open>The viewer right after the model is loaded: no label shown, no atom labelled.\<close>

definition initial_viewer :: "(nat \<Rightarrow> atom) \<Rightarrow> viewer" where
  "initial_viewer model =
     \<lparr>atoms = (\<lambda>a. (model a)\<lparr>atom_label := None\<rparr>), labels = [], next_handle = 0\<rparr>"

text \<open>The labels on show that are anchored at atom \<open>a\<close>.\<close>

definition labels_of :: "nat \<Rightarrow> viewer \<Rightarrow> (nat \<times> label_spec) list" where
  "labels_of a v = filter (\<lambda>hl. label_position (snd hl) = a) (labels v)"

text \<open>
  What every reachable state satisfies: handles are below the next one, no handle is
  shown twice, and the labels anchored at an atom are exactly the one the atom refers to.
\<close>

definition hover_inv :: "viewer \<Rightarrow> bool" where
  "hover_inv v \<longleftrightarrow>
     (\<forall>hl \<in> set (labels v). fst hl < next_handle v) \<and>
     distinct (map fst (labels v)) \<and>
     (\<forall>a. map fst (labels_of a v) = (case atom_label (atoms v a) of None \<Rightarrow> [] | Some h \<Rightarrow> [h]))"

definition demo_model :: "nat \<Rightarrow> atom" where
  "demo_model a =
     \<lparr>atom_resn = lit ''ALA'', atom_resi = int a, atom_chain = lit ''A'', atom_label = None\<rparr>"

section \<open>Files, processes and the pipeline (run_boltzgen_task)\<close>

text \<open>
  What the pipeline touches outside itself is kept in a \<open>world\<close>: the working directory,
  the file tree (a directory holds the names of its entries in the order the system lists
  them, a file holds its text, or cannot be decoded as text, or cannot be opened at all),
  the commands the program has tried to start, and what it has printed. Locations are component
  lists from the root; \<open>..\<close> and symbolic links are not interpreted, and of access rights
  only a file that cannot be opened is modelled.
\<close>

datatype content = Text pystr | Undecodable | Denied

datatype node = File content | Dir "pystr list"

datatype exn =
    FileNotFoundError "pystr list"
  | FileExistsError "pystr list"
  | IsADirectoryError "pystr list"
  | NotADirectoryError "pystr list"
  | PermissionError "pystr list"
  | UnicodeDecodeError "pystr list"
  | SameFileError "pystr list"
  | OtherError pystr

datatype 'a outcome = Returned 'a | Raised exn

record world =
  cwd :: "pystr list"
  files :: "pystr list \<rightharpoonup> node"
  launched :: "(pystr list \<times> pystr) list"
  console :: "pystr list"

record completed_process =
  returncode :: int
  stdout :: pystr
  stderr :: pystr

text \<open>
  What the program takes from its surroundings on one run: the text of the random UUID,
  PyYAML's serializer, the text of an exception (\<open>str(e)\<close>), and the external tool, which
  either cannot be started or runs to its end, leaving an exit code, its two output
  streams and a changed file tree.
\<close>

record env =
  uuid4_str :: pystr
  yaml_dump :: "yaml \<Rightarrow> pystr"
  str_exn :: "exn \<Rightarrow> pystr"
  subprocess_run ::
    "pystr list \<Rightarrow> pystr \<Rightarrow> (pystr list \<rightharpoonup> node) \<Rightarrow>
       exn + completed_process \<times> (pystr list \<rightharpoonup> node)"

definition loc :: "world \<Rightarrow> ppath \<Rightarrow> pystr list" where
  "loc w p = (case p of Abs ps \<Rightarrow> ps | Rel ps \<Rightarrow> cwd w @ ps)"

definition path_absolute :: "world \<Rightarrow> ppath \<Rightarrow> ppath" where
  "path_absolute w p = Abs (loc w p)"

definition path_exists :: "world \<Rightarrow> ppath \<Rightarrow> bool" where
  "path_exists w p \<longleftrightarrow> files w (loc w p) \<noteq> None"

text \<open>
  \<open>d.glob("*" + ext)\<close>: the entries of directory \<open>d\<close> whose name ends with \<open>ext\<close>, in
  listing order; nothing when \<open>d\<close> is not a directory.
\<close>

definition path_glob :: "world \<Rightarrow> ppath \<Rightarrow> pystr \<Rightarrow> ppath list" where
  "path_glob w d ext =
     (case files w (loc w d) of
        Some (Dir es) \<Rightarrow> map (path_child d) (filter (\<lambda>n. ends_with n ext) es)
      | _ \<Rightarrow> [])"

text \<open>\<open>open(p, "r").read()\<close>.\<close>

definition read_text :: "world \<Rightarrow> ppath \<Rightarrow> exn + pystr" where
  "read_text w p =
     (case files w (loc w p) of
        None \<Rightarrow> Inl (FileNotFoundError (loc w p))
      | Some (Dir es) \<Rightarrow> Inl (IsADirectoryError (loc w p))
      | Some (File (Text t)) \<Rightarrow> Inr t
      | Some (File Undecodable) \<Rightarrow> Inl (UnicodeDecodeError (loc w p))
      | Some (File Denied) \<Rightarrow> Inl (PermissionError (loc w p)))"

text \<open>A new entry at location \<open>q\<close>, entered in the listing of its directory.\<close>

definition create_node :: "pystr list \<Rightarrow> node \<Rightarrow> (pystr list \<rightharpoonup> node) \<Rightarrow> (pystr list \<rightharpoonup> node)" where
  "create_node q n fs =
     (case fs (butlast q) of
        Some (Dir es) \<Rightarrow> fs(butlast q \<mapsto> Dir (es @ [last q]), q \<mapsto> n)
      | _ \<Rightarrow> fs(q \<mapsto> n))"

text \<open>Opening location \<open>q\<close> for writing and storing content \<open>c\<close> there.\<close>

definition write_node :: "pystr list \<Rightarrow> content \<Rightarrow> world \<Rightarrow> exn + world" where
  "write_node q c w =
     (case files w q of
        Some (Dir es) \<Rightarrow> Inl (IsADirectoryError q)
      | Some (File Denied) \<Rightarrow> Inl (PermissionError q)
      | Some (File old) \<Rightarrow> Inr (w\<lparr>files := (files w)(q \<mapsto> File c)\<rparr>)
      | None \<Rightarrow>
          (case files w (butlast q) of
             Some (Dir es) \<Rightarrow> Inr (w\<lparr>files := create_node q (File c) (files w)\<rparr>)
           | Some (File old) \<Rightarrow> Inl (NotADirectoryError q)
           | None \<Rightarrow> Inl (FileNotFoundError q)))"

text \<open>\<open>p.mkdir(exist_ok=True)\<close>: an existing directory is accepted, parents are not made.\<close>

definition mkdir_exist_ok :: "ppath \<Rightarrow> world \<Rightarrow> exn + world" where
  "mkdir_exist_ok p w =
     (let q = loc w p in
      case files w q of
        Some (Dir es) \<Rightarrow> Inr w
      | Some (File c) \<Rightarrow> Inl (FileExistsError q)
      | None \<Rightarrow>
          (case files w (butlast q) of
             Some (Dir es) \<Rightarrow> Inr (w\<lparr>files := create_node q (Dir []) (files w)\<rparr>)
           | Some (File c) \<Rightarrow> Inl (NotADirectoryError q)
           | None \<Rightarrow> Inl (FileNotFoundError q)))"

text \<open>
  \<open>shutil.copy(src, dst)\<close>: into the directory \<open>dst\<close> under the base name of \<open>src\<close> when
  \<open>dst\<close> is a directory, onto \<open>dst\<close> otherwise. The source is opened for reading, then the
  destination for writing.
\<close>

definition basename :: "pystr \<Rightarrow> pystr" where
  "basename s = rev (takeWhile (\<lambda>c. c \<noteq> SLASH) (rev s))"

definition shutil_copy :: "pystr \<Rightarrow> ppath \<Rightarrow> world \<Rightarrow> exn + world" where
  "shutil_copy src dst w =
     (let s = loc w (parse_path src);
          d = (case files w (loc w dst) of
                 Some (Dir es) \<Rightarrow> loc w (path_div dst (basename src))
               | _ \<Rightarrow> loc w dst)
      in case files w s of
           None \<Rightarrow> Inl (FileNotFoundError s)
         | Some (Dir es) \<Rightarrow> Inl (IsADirectoryError s)
         | Some (File Denied) \<Rightarrow> Inl (PermissionError s)
         | Some (File c) \<Rightarrow> if s = d then Inl (SameFileError s) else write_node d c w)"

text \<open>Lines 149 to 152: the document is written to \<open>design_spec.yaml\<close> in the work directory.\<close>

definition generate_config_yaml ::
  "env \<Rightarrow> ppath \<Rightarrow> ppath \<Rightarrow> pystr \<Rightarrow> int \<Rightarrow> int \<Rightarrow> pystr \<Rightarrow> bool \<Rightarrow> world \<Rightarrow> exn + ppath \<times> world" where
  "generate_config_yaml e work_dir pdb_path target_chain_id binder_len_min binder_len_max
       hotspots_text is_cyclic w =
     (let config = config_data pdb_path target_chain_id binder_len_min binder_len_max
                     hotspots_text is_cyclic;
          yaml_path = path_div work_dir (lit ''design_spec.yaml'')
      in case write_node (loc w yaml_path) (Text (yaml_dump e config)) w of
           Inl ex \<Rightarrow> Inl ex
         | Inr w' \<Rightarrow> Inr (yaml_path, w'))"

text \<open>
  Lines 17 to 119. An empty path gives the empty string; a file that cannot be read gives
  the error fragment; otherwise the page, escaped, inside the frame.
\<close>

definition get_interactive_3dmol_iframe :: "env \<Rightarrow> world \<Rightarrow> pystr \<Rightarrow> pystr" where
  "get_interactive_3dmol_iframe e w pdb_path =
     (if pdb_path = [] then []
      else case read_text w (parse_path pdb_path) of
             Inr raw_pdb \<Rightarrow> iframe_html (inner_html (escape_pdb raw_pdb))
           | Inl ex \<Rightarrow>
               lit ''<div style='color:red; padding:20px'>'' @ [21152, 36733, 22833, 36133]
                 @ lit '': '' @ str_exn e ex @ lit ''</div>'')"

definition BASE_WORK_DIR :: ppath where
  "BASE_WORK_DIR = parse_path (lit ''gradio_workspace'')"

record upload =
  name :: pystr

text \<open>Lines 155 and 156, lines 173 to 180, line 187, and lines 191 to 195.\<close>

definition job_dir_of :: "env \<Rightarrow> ppath" where
  "job_dir_of e = path_div BASE_WORK_DIR (lit ''run_'' @ take 8 (uuid4_str e))"

definition boltzgen_cmd :: "world \<Rightarrow> ppath \<Rightarrow> ppath \<Rightarrow> pystr \<Rightarrow> int \<Rightarrow> int \<Rightarrow> int \<Rightarrow> pystr list" where
  "boltzgen_cmd w yaml_path job_dir protocol num_designs budget steps =
     [lit ''boltzgen'', lit ''run'', path_str (path_absolute w yaml_path),
      lit ''--output'', path_str (path_absolute w job_dir),
      lit ''--protocol'', protocol,
      lit ''--num_designs'', str_int num_designs,
      lit ''--budget'', str_int budget,
      lit ''--config'', lit ''design'', lit ''sampling.steps='' @ str_int steps]"

definition process_logs :: "pystr \<Rightarrow> completed_process \<Rightarrow> pystr" where
  "process_logs cmd_str process =
     lit ''=== CMD ==='' @ [NL] @ cmd_str @ [NL, NL] @ lit ''=== STDOUT ==='' @ [NL]
       @ stdout process @ [NL] @ lit ''=== STDERR ==='' @ [NL] @ stderr process"

definition final_dir_of :: "world \<Rightarrow> ppath \<Rightarrow> ppath" where
  "final_dir_of w job_dir =
     (if \<not> path_exists w (path_div job_dir (lit ''final_ranked_designs''))
      then path_div job_dir (lit ''intermediate_designs'')
      else path_div job_dir (lit ''final_ranked_designs''))"

definition generated_files :: "world \<Rightarrow> ppath \<Rightarrow> ppath list" where
  "generated_files w job_dir =
     path_glob w (final_dir_of w job_dir) (lit ''.pdb'')
       @ path_glob w (final_dir_of w job_dir) (lit ''.cif'')"

text \<open>
  The pipeline. It returns a pair (the viewer document or \<open>None\<close>, the text for the log
  area) or lets an exception escape, and it leaves a changed world. The numbers of the
  form (length bounds, design count, budget, steps) are Python integers.
\<close>

definition run_boltzgen_task ::
  "env \<Rightarrow> upload option \<Rightarrow> pystr \<Rightarrow> int \<Rightarrow> int \<Rightarrow> pystr \<Rightarrow> bool \<Rightarrow> pystr \<Rightarrow> int \<Rightarrow> int \<Rightarrow> int
     \<Rightarrow> world \<Rightarrow> (pystr option \<times> pystr) outcome \<times> world" where
  "run_boltzgen_task e input_file target_chain binder_min binder_max hotspots is_cyclic
       protocol num_designs budget steps w =
     (let job_dir = job_dir_of e in
      case mkdir_exist_ok job_dir w of
        Inl ex \<Rightarrow> (Raised ex, w)
      | Inr w1 \<Rightarrow>
     (case input_file of
        None \<Rightarrow>
          (Returned (None,
             [38169, 35823, 65306, 35831, 20808, 19978, 20256] @ lit '' PDB ''
               @ [25991, 20214]), w1)
      | Some f \<Rightarrow>
     (let original_filename = path_name (parse_path (name f));
          saved_pdb_path = path_div job_dir original_filename in
      case shutil_copy (name f) saved_pdb_path w1 of
        Inl ex \<Rightarrow> (Raised ex, w1)
      | Inr w2 \<Rightarrow>
     (case generate_config_yaml e job_dir saved_pdb_path target_chain binder_min binder_max
             hotspots is_cyclic w2 of
        Inl ex \<Rightarrow> (Returned (None, lit ''Config Error: '' @ str_exn e ex), w2)
      | Inr (yaml_path, w3) \<Rightarrow>
     (let cmd = boltzgen_cmd w3 yaml_path job_dir protocol num_designs budget steps;
          cmd_str = str_join (lit '' '') cmd;
          w4 = w3\<lparr>console := console w3 @ [lit ''Executing: '' @ cmd_str],
                  launched := launched w3 @ [(cmd, path_str job_dir)]\<rparr> in
      case subprocess_run e cmd (path_str job_dir) (files w4) of
        Inl ex \<Rightarrow> (Returned (None, lit ''System Error: '' @ str_exn e ex), w4)
      | Inr (process, fs) \<Rightarrow>
     (let logs = process_logs cmd_str process;
          w5 = w4\<lparr>files := fs\<rparr> in
      if generated_files w5 job_dir = [] then
        (Returned (None,
           [26410, 25214, 21040, 32467, 26524, 25991, 20214, 12290, NL] @ logs), w5)
      else
        (let best_pdb = path_str (hd (generated_files w5 job_dir))
         in (Returned (Some (get_interactive_3dmol_iframe e w5 best_pdb), logs), w5))))))))"



section \<open>A sample run\<close>

text \<open>
  A concrete run, used to evaluate the definitions: the server works in \<open>/srv\<close>, the base
  directory exists and is empty, the upload sits in \<open>/tmp\<close>. The sample tool fails with
  exit code 1 and leaves one structure file among its intermediate designs; the text of
  that file holds a single quote and a line end.
\<close>

definition demo_job_dir :: ppath where
  "demo_job_dir = Rel [lit ''gradio_workspace'', lit ''run_3f2a9c1e'']"

definition demo_job_loc :: "pystr list" where
  "demo_job_loc = [lit ''srv'', lit ''gradio_workspace'', lit ''run_3f2a9c1e'']"

definition demo_tree :: "pystr list \<rightharpoonup> node" where
  "demo_tree =
     [[] \<mapsto> Dir [lit ''srv'', lit ''tmp''],
      [lit ''srv''] \<mapsto> Dir [lit ''gradio_workspace''],
      [lit ''srv'', lit ''gradio_workspace''] \<mapsto> Dir [],
      [lit ''tmp''] \<mapsto> Dir [lit ''target.pdb''],
      [lit ''tmp'', lit ''target.pdb''] \<mapsto> File (Text (lit ''ATOM''))]"

definition demo_world :: world where
  "demo_world = \<lparr>cwd = [lit ''srv''], files = demo_tree, launched = [], console = []\<rparr>"

definition demo_process :: completed_process where
  "demo_process = \<lparr>returncode = 1, stdout = lit ''sampling'', stderr = lit ''Traceback''\<rparr>"

definition demo_pdb_text :: pystr where
  "demo_pdb_text = lit ''ATOM O5'' @ [QUOTE, NL] @ lit ''END''"

definition demo_leave :: "content \<Rightarrow> (pystr list \<rightharpoonup> node) \<Rightarrow> (pystr list \<rightharpoonup> node)" where
  "demo_leave c fs =
     fs(demo_job_loc \<mapsto>
          Dir [lit ''target.pdb'', lit ''design_spec.yaml'', lit ''intermediate_designs''],
        demo_job_loc @ [lit ''intermediate_designs''] \<mapsto> Dir [lit ''design_0.pdb''],
        demo_job_loc @ [lit ''intermediate_designs'', lit ''design_0.pdb''] \<mapsto> File c)"

definition demo_tool ::
  "pystr list \<Rightarrow> pystr \<Rightarrow> (pystr list \<rightharpoonup> node) \<Rightarrow> exn + completed_process \<times> (pystr list \<rightharpoonup> node)" where
  "demo_tool cmd dir fs = Inr (demo_process, demo_leave (Text demo_pdb_text) fs)"




definition demo_dump :: "yaml \<Rightarrow> pystr" where
  "demo_dump doc = lit ''entities: ...''"

definition demo_str_exn :: "exn \<Rightarrow> pystr" where
  "demo_str_exn ex = lit ''error''"

definition demo_env :: env where
  "demo_env =
     \<lparr>uuid4_str = lit ''3f2a9c1e-7b4d-4e2a-9c1f-5d6e7f8a9b0c'', yaml_dump = demo_dump,
      str_exn = demo_str_exn, subprocess_run = demo_tool\<rparr>"








definition demo_missing_upload :: upload where
  "demo_missing_upload = \<lparr>name = lit ''/tmp/gone.pdb''\<rparr>"

text \<open>
  A file tree in which the tool has left both output directories; the ranked one lists a
  \<open>.cif\<close> file before a \<open>.pdb\<close> file.
\<close>

definition demo_ranked_world :: world where
  "demo_ranked_world =
     \<lparr>cwd = [lit ''srv''],
      files =
        [demo_job_loc \<mapsto> Dir [lit ''final_ranked_designs'', lit ''intermediate_designs''],
         demo_job_loc @ [lit ''final_ranked_designs'']
           \<mapsto> Dir [lit ''rank_1.cif'', lit ''scores.csv'', lit ''rank_0.pdb''],
         demo_job_loc @ [lit ''intermediate_designs''] \<mapsto> Dir [lit ''design_0.pdb'']],
      launched = [], console = []\<rparr>"

text \<open>A file tree in which the ranked directory exists but holds no structure file.\<close>

definition demo_unranked_world :: world where
  "demo_unranked_world =
     \<lparr>cwd = [lit ''srv''],
      files =
        [demo_job_loc \<mapsto> Dir [lit ''final_ranked_designs'', lit ''intermediate_designs''],
         demo_job_loc @ [lit ''final_ranked_designs''] \<mapsto> Dir [lit ''scores.csv''],
         demo_job_loc @ [lit ''intermediate_designs''] \<mapsto> Dir [lit ''design_0.pdb'']],
      launched = [], console = []\<rparr>"

section \<open>Facts about the text functions\<close>

lemma lit_eq_iff [simp]: "lit s = lit t \<longleftrightarrow> s = t"
proof -
  have "inj (of_char :: char \<Rightarrow> nat)"
    by (rule inj_on_inverseI [where g = char_of]) simp
  then show ?thesis
    unfolding lit_def by (simp add: inj_map_eq_map)
qed

lemma lit_Nil [simp]: "lit [] = []" by (simp add: lit_def)
lemma lit_eq_Nil [simp]: "lit s = [] \<longleftrightarrow> s = []" by (simp add: lit_def)
lemma length_lit [simp]: "length (lit s) = length s" by (simp add: lit_def)
lemma drop_lit: "drop n (lit s) = lit (drop n s)" by (simp add: lit_def drop_map)
lemma take_lit: "take n (lit s) = lit (take n s)" by (simp add: lit_def take_map)
lemma lit_append: "lit s @ lit t = lit (s @ t)" by (simp add: lit_def)

lemma ends_with_lit [simp]:
  "ends_with (lit s) (lit t) \<longleftrightarrow> length t \<le> length s \<and> drop (length s - length t) s = t"
  by (simp add: ends_with_def drop_lit)

lemma of_char_in_lit: "(of_char c :: nat) \<in> set (lit s) \<longleftrightarrow> c \<in> set s"
proof -
  have "inj (of_char :: char \<Rightarrow> nat)"
    by (rule inj_on_inverseI [where g = char_of]) simp
  then show ?thesis
    unfolding lit_def by (auto dest: injD)
qed

lemma SLASH_in_lit [simp]: "SLASH \<in> set (lit s) \<longleftrightarrow> CHR ''/'' \<in> set s"
proof -
  have e: "SLASH = of_char CHR ''/''" by (simp add: SLASH_def)
  show ?thesis unfolding e by (rule of_char_in_lit)
qed

lemma str_replace_single:
  "str_replace [a] new s = concat (map (\<lambda>c. if c = a then new else [c]) s)"
  by (induction s) auto

lemma str_replace_delete:
  "str_replace [a] [] s = filter (\<lambda>c. c \<noteq> a) s"
  by (induction s) auto

lemma py_strip_empty_iff: "py_strip s = [] \<longleftrightarrow> (\<forall>c \<in> set s. py_isspace c)"
proof
  assume "py_strip s = []"
  then have "\<forall>c \<in> set (dropWhile py_isspace s). py_isspace c"
    by (simp add: py_strip_def)
  then have "dropWhile py_isspace s = []"
    using hd_dropWhile [of py_isspace s] by (cases "dropWhile py_isspace s") auto
  then show "\<forall>c \<in> set s. py_isspace c"
    by simp
next
  assume "\<forall>c \<in> set s. py_isspace c"
  then have "dropWhile py_isspace s = []"
    by simp
  then show "py_strip s = []"
    by (simp add: py_strip_def del: dropWhile_eq_Nil_conv)
qed

section \<open>The binder entity\<close>

lemma binder_field_config:
  "binder_field k (config_data p c lo hi h cyc) =
     map_of ((if cyc then dict_set (lit ''cyclic'') (YBool True) else id)
       [(lit ''id'', YStr (lit ''B'')),
        (lit ''sequence'', YStr (str_int lo @ lit ''..'' @ str_int hi))]) k"
  by (simp add: binder_field_def config_data_def Let_def)

text \<open>
  C6. The binder entity carries the key \<open>cyclic\<close>, with the value true, exactly when the
  cyclic input is true, and has no such key otherwise; reading the built document back
  under the rule "present means true, absent means false" gives the input boolean.
\<close>

theorem cyclic_flag_roundtrip:
  "binder_field (lit ''cyclic'') (config_data p c lo hi h cyc)
     = (if cyc then Some (YBool True) else None)
   \<and> read_cyclic (config_data p c lo hi h cyc) = cyc"
  by (simp add: read_cyclic_def binder_field_config lit_def)

theorem cyclic_flag_roundtrip_witness:
  "read_cyclic (config_data (Rel [lit ''target.pdb'']) (lit ''A'') 8 16 (lit ''12,14'') True) = True
   \<and> read_cyclic (config_data (Rel [lit ''target.pdb'']) (lit ''A'') 8 16 (lit ''12,14'') False) = False"
  using cyclic_flag_roundtrip [of "Rel [lit ''target.pdb'']" "lit ''A''" 8 16 "lit ''12,14''" True]
    cyclic_flag_roundtrip [of "Rel [lit ''target.pdb'']" "lit ''A''" 8 16 "lit ''12,14''" False]
  by simp

text \<open>
  C7. For length bounds \<open>lo \<le> hi\<close>, the \<open>sequence\<close> string of the binder entity is the
  decimal text of \<open>lo\<close>, two dots, and the decimal text of \<open>hi\<close>, whatever the other inputs
  are. (The code does not compare the bounds; the equation holds for any two integers.)
\<close>

theorem binder_range_string:
  assumes "lo \<le> hi"
  shows "binder_field (lit ''sequence'') (config_data p c lo hi h cyc)
           = Some (YStr (str_int lo @ lit ''..'' @ str_int hi))"
  by (simp add: binder_field_config lit_def)

theorem binder_range_string_witness:
  "(8::int) \<le> 16 \<and>
   binder_field (lit ''sequence'')
       (config_data (Rel [lit ''target.pdb'']) (lit ''A'') 8 16 (lit ''12,14'') False)
     = Some (YStr (lit ''8..16''))"
  using binder_range_string [of 8 16 "Rel [lit ''target.pdb'']" "lit ''A''" "lit ''12,14''" False]
  by (simp add: str_int_def digits.simps lit_def)

section \<open>The target entity and the hotspot text\<close>

lemma target_field_config:
  "target_field k (config_data p c lo hi h cyc) =
     map_of ((if h \<noteq> [] \<and> py_strip h \<noteq> [] then
                dict_set (lit ''binding_types'')
                  (YSeq [YMap [(lit ''chain'', YMap [(lit ''id'', YStr c)]),
                               (lit ''binding'', YStr (str_replace (lit '' '') [] h))]])
              else id)
       [(lit ''path'', YStr (path_name p)),
        (lit ''include'', YSeq [YMap [(lit ''chain'', YMap [(lit ''id'', YStr c)])]])]) k"
  by (simp add: target_field_def config_data_def Let_def)

lemma lit_space: "lit '' '' = [SPACE]" by (simp add: lit_def SPACE_def)

text \<open>
  C4, as the code has it. When the hotspot text holds a character that is not whitespace,
  the target entity carries one binding annotation whose string is the hotspot text with
  every space character (U+0020) removed; every other character, tabs and line ends
  included, is kept, in order, and nothing is validated. When the text is empty or all
  whitespace, the target entity has no \<open>binding_types\<close> key.
\<close>

theorem hotspots_binding_spaces_removed:
  "((\<exists>x \<in> set h. \<not> py_isspace x) \<longrightarrow>
      target_field (lit ''binding_types'') (config_data p c lo hi h cyc)
        = Some (YSeq [YMap [(lit ''chain'', YMap [(lit ''id'', YStr c)]),
                            (lit ''binding'', YStr (filter (\<lambda>x. x \<noteq> SPACE) h))]])
      \<and> binding_annotation (config_data p c lo hi h cyc) = Some (filter (\<lambda>x. x \<noteq> SPACE) h))
   \<and> ((\<forall>x \<in> set h. py_isspace x) \<longrightarrow>
      target_field (lit ''binding_types'') (config_data p c lo hi h cyc) = None
      \<and> binding_annotation (config_data p c lo hi h cyc) = None)"
proof (intro conjI impI)
  assume ex: "\<exists>x \<in> set h. \<not> py_isspace x"
  then have ne: "h \<noteq> []" "py_strip h \<noteq> []"
    by (auto simp: py_strip_empty_iff)
  show tf: "target_field (lit ''binding_types'') (config_data p c lo hi h cyc)
        = Some (YSeq [YMap [(lit ''chain'', YMap [(lit ''id'', YStr c)]),
                            (lit ''binding'', YStr (filter (\<lambda>x. x \<noteq> SPACE) h))]])"
    using ne by (simp add: target_field_config lit_space str_replace_delete)
  show "binding_annotation (config_data p c lo hi h cyc) = Some (filter (\<lambda>x. x \<noteq> SPACE) h)"
    unfolding binding_annotation_def tf by (simp add: lit_def)
next
  assume "\<forall>x \<in> set h. py_isspace x"
  then have e: "py_strip h = []" by (simp add: py_strip_empty_iff)
  show tf: "target_field (lit ''binding_types'') (config_data p c lo hi h cyc) = None"
    using e by (simp add: target_field_config lit_def)
  show "binding_annotation (config_data p c lo hi h cyc) = None"
    unfolding binding_annotation_def tf by simp
qed

theorem hotspots_binding_spaces_removed_witness:
  "binding_annotation
     (config_data (Rel [lit ''target.pdb'']) (lit ''A'') 8 16 (lit '' 12, 14, 61 '') False)
       = Some (lit ''12,14,61'')
   \<and> binding_annotation
     (config_data (Rel [lit ''target.pdb'']) (lit ''A'') 8 16 (lit ''   '') False) = None"
  using hotspots_binding_spaces_removed
      [of "lit '' 12, 14, 61 ''" "Rel [lit ''target.pdb'']" "lit ''A''" 8 16 False]
    hotspots_binding_spaces_removed
      [of "lit ''   ''" "Rel [lit ''target.pdb'']" "lit ''A''" 8 16 False]
  by (simp add: lit_def py_isspace_def SPACE_def)

text \<open>
  The claim C4 as worded fails: with a tab inside the hotspot text, the stored annotation
  still holds the tab and differs from the text with all whitespace removed.
\<close>

theorem hotspots_tab_not_stripped:
  "py_strip (lit ''12,'' @ [TAB] @ lit ''14'') \<noteq> []
   \<and> binding_annotation
       (config_data (Rel [lit ''target.pdb'']) (lit ''A'') 8 16 (lit ''12,'' @ [TAB] @ lit ''14'') False)
     = Some (lit ''12,'' @ [TAB] @ lit ''14'')
   \<and> spec_strip_all_whitespace (lit ''12,'' @ [TAB] @ lit ''14'') = lit ''12,14''
   \<and> binding_annotation
       (config_data (Rel [lit ''target.pdb'']) (lit ''A'') 8 16 (lit ''12,'' @ [TAB] @ lit ''14'') False)
     \<noteq> Some (spec_strip_all_whitespace (lit ''12,'' @ [TAB] @ lit ''14''))"
  by (simp add: binding_annotation_def target_field_config py_strip_def py_isspace_def
      spec_strip_all_whitespace_def lit_def TAB_def)

section \<open>The structure text inside the script string\<close>

text \<open>
  The template opens the string literal with the last character of \<open>viewer_head\<close> and
  closes it with the first character of \<open>viewer_tail\<close>. What the two replacements achieve:
  the escaped text has no raw newline, and when the structure text has neither a backslash
  nor a carriage return, the literal is closed by the template's own quote, right after
  the inserted text.
\<close>

lemma viewer_template_quotes: "last viewer_head = QUOTE \<and> hd viewer_tail = QUOTE"
  by (simp add: viewer_head_def viewer_tail_def)

lemma js_string_end_escape_pdb:
  "\<forall>c \<in> set raw. c \<noteq> BACKSLASH \<and> c \<noteq> CR \<Longrightarrow>
   js_string_end (escape_pdb raw @ QUOTE # rest) i = Some (i + length (escape_pdb raw))"
  by (induction raw arbitrary: i)
    (auto simp: escape_pdb_def str_replace_single lit_def QUOTE_def BACKSLASH_def NL_def CR_def)

lemma NL_notin_escape_pdb: "NL \<notin> set (escape_pdb raw)"
  by (induction raw) (auto simp: escape_pdb_def str_replace_single lit_def QUOTE_def BACKSLASH_def NL_def)

lemma js_string_end_early:
  "js_string_end (escape_pdb ([BACKSLASH, QUOTE] @ lit '';alert(1);//'') @ rest) 0 = Some 2"
  by (simp add: escape_pdb_def lit_def QUOTE_def BACKSLASH_def NL_def CR_def)

text \<open>
  C1 at a structure text that starts with a backslash and a single quote. The backslash
  is left as it is and the quote gets a backslash of its own, so the script reads an
  escaped backslash followed by a quote that closes the literal at position 2 of the 15
  inserted characters: the 12 characters after that quote are read as script. Backslashes are not escaped by
  line 31, although the line is there to make the text fit a script string.
\<close>

theorem escape_pdb_backslash_quote_closes_early:
  "inner_html (escape_pdb ([BACKSLASH, QUOTE] @ lit '';alert(1);//''))
     = viewer_head @ escape_pdb ([BACKSLASH, QUOTE] @ lit '';alert(1);//'') @ viewer_tail
   \<and> escape_pdb ([BACKSLASH, QUOTE] @ lit '';alert(1);//'')
     = [BACKSLASH, BACKSLASH, QUOTE] @ lit '';alert(1);//''
   \<and> js_string_end (escape_pdb ([BACKSLASH, QUOTE] @ lit '';alert(1);//'') @ viewer_tail) 0 = Some 2
   \<and> length (escape_pdb ([BACKSLASH, QUOTE] @ lit '';alert(1);//'')) = 15"
  apply (intro conjI)
     apply (simp add: inner_html_def)
    apply (simp add: escape_pdb_def lit_def QUOTE_def BACKSLASH_def NL_def)
   apply (rule js_string_end_early)
  apply (simp add: escape_pdb_def lit_def QUOTE_def BACKSLASH_def NL_def)
  done

section \<open>The hover protocol as a two-state machine\<close>

lemma hover_enter_idem: "hover_enter a (hover_enter a v) = hover_enter a v"
  by (simp add: hover_enter_def addLabel_def Let_def)

lemma hover_enter_labelled: "atom_label (atoms v a) \<noteq> None \<Longrightarrow> hover_enter a v = v"
  by (auto simp: hover_enter_def Let_def)

lemma hover_leave_unlabelled: "atom_label (atoms v a) = None \<Longrightarrow> hover_leave a v = v"
  by (simp add: hover_leave_def)

lemma hover_inv_initial: "hover_inv (initial_viewer model)"
  by (simp add: hover_inv_def initial_viewer_def labels_of_def)

lemma hover_inv_enter:
  assumes "hover_inv v"
  shows "hover_inv (hover_enter a v)"
proof (cases "atom_label (atoms v a)")
  case (Some h)
  then show ?thesis using assms by (simp add: hover_enter_labelled)
next
  case None
  from assms have lt: "\<forall>hl \<in> set (labels v). fst hl < next_handle v"
    and d: "distinct (map fst (labels v))"
    and at: "\<And>b. map fst (labels_of b v) = (case atom_label (atoms v b) of None \<Rightarrow> [] | Some h \<Rightarrow> [h])"
    by (simp_all add: hover_inv_def)
  have fresh: "next_handle v \<notin> fst ` set (labels v)"
    using lt by auto
  show ?thesis
    unfolding hover_inv_def
  proof (intro conjI allI)
    show "\<forall>hl\<in>set (labels (hover_enter a v)). fst hl < next_handle (hover_enter a v)"
      using None lt by (auto simp: hover_enter_def addLabel_def Let_def dest: bspec)
    show "distinct (map fst (labels (hover_enter a v)))"
      using None d fresh by (simp add: hover_enter_def addLabel_def Let_def)
    fix b
    show "map fst (labels_of b (hover_enter a v)) =
          (case atom_label (atoms (hover_enter a v) b) of None \<Rightarrow> [] | Some h \<Rightarrow> [h])"
      using None at [of b] at [of a]
      by (simp add: hover_enter_def addLabel_def Let_def labels_of_def)
  qed
qed

lemma hover_inv_leave:
  assumes "hover_inv v"
  shows "hover_inv (hover_leave a v)"
proof (cases "atom_label (atoms v a)")
  case None
  then show ?thesis using assms by (simp add: hover_leave_def)
next
  case (Some h)
  from assms have lt: "\<forall>hl \<in> set (labels v). fst hl < next_handle v"
    and d: "distinct (map fst (labels v))"
    and at: "\<And>b. map fst (labels_of b v) = (case atom_label (atoms v b) of None \<Rightarrow> [] | Some h \<Rightarrow> [h])"
    by (simp_all add: hover_inv_def)
  have ha: "map fst (labels_of a v) = [h]"
    using at [of a] Some by simp
  then have "h \<in> set (map fst (labels_of a v))"
    by simp
  then obtain l where l: "(h, l) \<in> set (labels v)" "label_position l = a"
    by (auto simp: labels_of_def)
  have other: "h \<notin> set (map fst (labels_of b v))" if "b \<noteq> a" for b
  proof
    assume "h \<in> set (map fst (labels_of b v))"
    then obtain l' where l': "(h, l') \<in> set (labels v)" "label_position l' = b"
      by (auto simp: labels_of_def)
    from d l(1) l'(1) have "l = l'"
      by (meson eq_key_imp_eq_value)
    with l(2) l'(2) that show False by simp
  qed
  have filt: "map fst (filter (\<lambda>hl. fst hl \<noteq> h) xs) = filter (\<lambda>k. k \<noteq> h) (map fst xs)" for xs :: "(nat \<times> label_spec) list"
    by (induction xs) auto
  have lo: "labels_of b (hover_leave a v) = filter (\<lambda>hl. fst hl \<noteq> h) (labels_of b v)" for b
    using Some by (auto simp: hover_leave_def removeLabel_def labels_of_def Let_def intro: filter_cong)
  show ?thesis
    unfolding hover_inv_def
  proof (intro conjI allI)
    show "\<forall>hl\<in>set (labels (hover_leave a v)). fst hl < next_handle (hover_leave a v)"
      using Some lt by (simp add: hover_leave_def removeLabel_def Let_def)
    show "distinct (map fst (labels (hover_leave a v)))"
      using Some d by (simp add: hover_leave_def removeLabel_def Let_def distinct_map_filter)
    fix b
    show "map fst (labels_of b (hover_leave a v)) =
          (case atom_label (atoms (hover_leave a v) b) of None \<Rightarrow> [] | Some h \<Rightarrow> [h])"
    proof (cases "b = a")
      case True
      have "atom_label (atoms (hover_leave a v) a) = None"
        using Some by (simp add: hover_leave_def removeLabel_def Let_def)
      then show ?thesis using True ha by (simp add: lo filt)
    next
      case False
      have same: "atom_label (atoms (hover_leave a v) b) = atom_label (atoms v b)"
        using Some False by (simp add: hover_leave_def removeLabel_def Let_def)
      have "filter (\<lambda>k. k \<noteq> h) (map fst (labels_of b v)) = map fst (labels_of b v)"
        using other [OF False] by (force simp: filter_id_conv)
      then show ?thesis using at [of b] by (simp add: lo filt same)
    qed
  qed
qed

lemma hover_inv_run: "hover_inv v \<Longrightarrow> hover_inv (run_events evs v)"
  unfolding run_events_def
proof (induction evs arbitrary: v)
  case Nil
  then show ?case by simp
next
  case (Cons ev evs)
  have "hover_inv (hover_step v ev)"
    using Cons.prems by (cases ev) (simp_all add: hover_inv_enter hover_inv_leave)
  then show ?case using Cons.IH by simp
qed

lemma hover_inv_count:
  assumes "hover_inv v"
  shows "length (labels_of a v) = (if atom_label (atoms v a) = None then 0 else 1)"
proof -
  from assms have "map fst (labels_of a v) = (case atom_label (atoms v a) of None \<Rightarrow> [] | Some h \<Rightarrow> [h])"
    by (simp add: hover_inv_def)
  then have "length (map fst (labels_of a v)) = (if atom_label (atoms v a) = None then 0 else 1)"
    by (simp split: option.splits)
  then show ?thesis by simp
qed

lemma hover_enter_sets_label: "atom_label (atoms (hover_enter a v) a) \<noteq> None"
  by (simp add: hover_enter_def addLabel_def Let_def)

text \<open>
  C8. In every state \<open>v\<close> that the viewer reaches from the freshly loaded model by hover
  events: entering an atom twice is the same as entering it once and leaves exactly one
  label at the atom; leaving an atom that has no label changes nothing; at most one label
  is anchored at an atom, and there is one exactly when the atom's \<open>label\<close> property is
  set. So each atom is either unlabelled or labelled.
\<close>

theorem hover_two_state_machine:
  assumes "v = run_events evs (initial_viewer model)"
  shows "hover_enter a (hover_enter a v) = hover_enter a v
       \<and> length (labels_of a (hover_enter a (hover_enter a v))) = 1
       \<and> (atom_label (atoms v a) = None \<longrightarrow> hover_leave a v = v)
       \<and> length (labels_of a v) \<le> 1
       \<and> (length (labels_of a v) = 1 \<longleftrightarrow> atom_label (atoms v a) \<noteq> None)"
proof -
  have inv: "hover_inv v"
    using assms by (simp add: hover_inv_run hover_inv_initial)
  have inv': "hover_inv (hover_enter a v)"
    using inv by (rule hover_inv_enter)
  have "length (labels_of a (hover_enter a v)) = 1"
    using hover_inv_count [OF inv', of a] hover_enter_sets_label [of a v] by simp
  then show ?thesis
    using hover_inv_count [OF inv, of a]
    by (simp add: hover_enter_idem hover_leave_unlabelled)
qed

theorem hover_two_state_machine_witness:
  "length (labels_of 7 (hover_enter 7 (hover_enter 7
       (run_events [Enter 3, Leave 3, Leave 7] (initial_viewer demo_model))))) = 1
   \<and> hover_leave 7 (run_events [Enter 3, Leave 3, Leave 7] (initial_viewer demo_model))
       = run_events [Enter 3, Leave 3, Leave 7] (initial_viewer demo_model)
   \<and> length (labels_of 3 (run_events [Enter 3, Enter 3, Enter 7] (initial_viewer demo_model))) = 1"
proof -
  have a: "atom_label (atoms (run_events [Enter 3, Leave 3, Leave 7] (initial_viewer demo_model)) 7) = None"
    by (simp add: run_events_def hover_enter_def hover_leave_def addLabel_def removeLabel_def
        initial_viewer_def demo_model_def Let_def)
  have b: "atom_label (atoms (run_events [Enter 3, Enter 3, Enter 7] (initial_viewer demo_model)) 3) \<noteq> None"
    by (simp add: run_events_def hover_enter_def hover_leave_def addLabel_def removeLabel_def
        initial_viewer_def demo_model_def Let_def)
  note t1 = hover_two_state_machine [OF refl, of 7 "[Enter 3, Leave 3, Leave 7]" demo_model]
  note t2 = hover_two_state_machine [OF refl, of 3 "[Enter 3, Enter 3, Enter 7]" demo_model]
  from t1 have c1: "length (labels_of 7 (hover_enter 7 (hover_enter 7
       (run_events [Enter 3, Leave 3, Leave 7] (initial_viewer demo_model))))) = 1"
    by blast
  from t1 a have c2: "hover_leave 7 (run_events [Enter 3, Leave 3, Leave 7] (initial_viewer demo_model))
       = run_events [Enter 3, Leave 3, Leave 7] (initial_viewer demo_model)"
    by blast
  from t2 b have c3: "length (labels_of 3 (run_events [Enter 3, Enter 3, Enter 7] (initial_viewer demo_model))) = 1"
    by blast
  from c1 c2 c3 show ?thesis by blast
qed

section \<open>Paths and the collection of results\<close>

lemma split_on_absent: "d \<notin> set s \<Longrightarrow> split_on d s = [s]"
  by (induction s) auto

lemma parse_path_single:
  "SLASH \<notin> set s \<Longrightarrow> s \<noteq> [] \<Longrightarrow> s \<noteq> lit ''.'' \<Longrightarrow> parse_path s = Rel [s]"
  by (cases s) (auto simp: parse_path_def split_on_absent)

lemma path_div_single:
  "SLASH \<notin> set s \<Longrightarrow> s \<noteq> [] \<Longrightarrow> s \<noteq> lit ''.'' \<Longrightarrow> path_div p s = path_child p s"
  by (simp add: path_div_def parse_path_single path_child_def)

lemma path_div_final: "path_div p (lit ''final_ranked_designs'') = path_child p (lit ''final_ranked_designs'')"
  by (rule path_div_single) simp_all

lemma path_div_intermediate: "path_div p (lit ''intermediate_designs'') = path_child p (lit ''intermediate_designs'')"
  by (rule path_div_single) simp_all


lemma BASE_WORK_DIR_parts: "BASE_WORK_DIR = Rel [lit ''gradio_workspace'']"
  unfolding BASE_WORK_DIR_def by (rule parse_path_single) simp_all

lemma parts_child: "parts (path_child d n) = parts d @ [n]"
  by (cases d) (simp_all add: path_child_def)

lemma case_nonempty: "xs \<noteq> [] \<Longrightarrow> (case xs of [] \<Rightarrow> a | _ # _ \<Rightarrow> b) = b"
  by (cases xs) simp_all

lemma path_name_child: "path_name (path_child d n) = n"
  unfolding path_name_def parts_child by (subst case_nonempty) simp_all

lemma loc_child: "loc w (path_child d n) = loc w d @ [n]"
  by (cases d) (simp_all add: loc_def path_child_def)

lemma job_dir_of_parts:
  "SLASH \<notin> set (take 8 (uuid4_str e)) \<Longrightarrow>
   job_dir_of e = Rel [lit ''gradio_workspace'', lit ''run_'' @ take 8 (uuid4_str e)]"
  unfolding job_dir_of_def BASE_WORK_DIR_parts
  by (subst path_div_single) (auto simp: path_child_def lit_def SLASH_def)

lemma path_glob_names:
  "f \<in> set (path_glob w d ext) \<Longrightarrow> \<exists>n. f = path_child d n \<and> ends_with n ext"
  by (auto simp: path_glob_def split: option.splits node.splits)

lemma not_pdb_and_cif: "ends_with n (lit ''.pdb'') \<Longrightarrow> ends_with n (lit ''.cif'') \<Longrightarrow> False"
  by (simp add: ends_with_def lit_def)

lemma path_glob_missing: "files w (loc w d) = None \<Longrightarrow> path_glob w d ext = []"
  by (simp add: path_glob_def)


text \<open>
  C5. The collection looks at \<open>final_ranked_designs\<close> first and at
  \<open>intermediate_designs\<close> only when the first does not exist. When the first exists, the
  result is what the two globs find there, and every path returned is an entry of it,
  whatever the second directory holds. When neither exists, or when the selected directory
  has no entry ending in \<open>.pdb\<close> or \<open>.cif\<close>, the result is the empty list. The collection is
  a total function: it has no exceptional outcome.
\<close>

theorem result_location_fallback:
  "(path_exists w (path_div job_dir (lit ''final_ranked_designs'')) \<longrightarrow>
      generated_files w job_dir
        = path_glob w (path_div job_dir (lit ''final_ranked_designs'')) (lit ''.pdb'')
          @ path_glob w (path_div job_dir (lit ''final_ranked_designs'')) (lit ''.cif'')
      \<and> (\<forall>f \<in> set (generated_files w job_dir).
            \<exists>n. f = path_child (path_div job_dir (lit ''final_ranked_designs'')) n))
   \<and> (\<not> path_exists w (path_div job_dir (lit ''final_ranked_designs'')) \<longrightarrow>
      generated_files w job_dir
        = path_glob w (path_div job_dir (lit ''intermediate_designs'')) (lit ''.pdb'')
          @ path_glob w (path_div job_dir (lit ''intermediate_designs'')) (lit ''.cif''))
   \<and> (\<not> path_exists w (path_div job_dir (lit ''final_ranked_designs''))
        \<and> \<not> path_exists w (path_div job_dir (lit ''intermediate_designs'')) \<longrightarrow>
      generated_files w job_dir = [])
   \<and> ((\<forall>es. files w (loc w (final_dir_of w job_dir)) = Some (Dir es) \<longrightarrow>
          (\<forall>n \<in> set es. \<not> ends_with n (lit ''.pdb'') \<and> \<not> ends_with n (lit ''.cif''))) \<longrightarrow>
      generated_files w job_dir = [])"
proof (intro conjI impI)
  assume ex: "path_exists w (path_div job_dir (lit ''final_ranked_designs''))"
  then show g: "generated_files w job_dir
        = path_glob w (path_div job_dir (lit ''final_ranked_designs'')) (lit ''.pdb'')
          @ path_glob w (path_div job_dir (lit ''final_ranked_designs'')) (lit ''.cif'')"
    by (simp add: generated_files_def final_dir_of_def)
  show "\<forall>f \<in> set (generated_files w job_dir).
            \<exists>n. f = path_child (path_div job_dir (lit ''final_ranked_designs'')) n"
    unfolding g using path_glob_names by fastforce
next
  assume "\<not> path_exists w (path_div job_dir (lit ''final_ranked_designs''))"
  then show "generated_files w job_dir
        = path_glob w (path_div job_dir (lit ''intermediate_designs'')) (lit ''.pdb'')
          @ path_glob w (path_div job_dir (lit ''intermediate_designs'')) (lit ''.cif'')"
    by (simp add: generated_files_def final_dir_of_def)
next
  assume "\<not> path_exists w (path_div job_dir (lit ''final_ranked_designs''))
        \<and> \<not> path_exists w (path_div job_dir (lit ''intermediate_designs''))"
  then show "generated_files w job_dir = []"
    by (simp add: generated_files_def final_dir_of_def path_exists_def path_glob_missing)
next
  assume "\<forall>es. files w (loc w (final_dir_of w job_dir)) = Some (Dir es) \<longrightarrow>
          (\<forall>n \<in> set es. \<not> ends_with n (lit ''.pdb'') \<and> \<not> ends_with n (lit ''.cif''))"
  then show "generated_files w job_dir = []"
    by (auto simp: generated_files_def path_glob_def filter_empty_conv split: option.splits node.splits)
qed

text \<open>
  C10. In the list of collected files, a path whose name ends in \<open>.pdb\<close> stands before
  every path whose name ends in \<open>.cif\<close>; and when the selected directory has an entry
  ending in \<open>.pdb\<close>, the list is not empty and its first element, the file the pipeline
  renders, has a name ending in \<open>.pdb\<close>.
\<close>

theorem pdb_files_precede_cif_files:
  "(\<forall>i j. i < length (generated_files w job_dir) \<and> j < length (generated_files w job_dir)
        \<and> ends_with (path_name (generated_files w job_dir ! i)) (lit ''.pdb'')
        \<and> ends_with (path_name (generated_files w job_dir ! j)) (lit ''.cif'') \<longrightarrow> i < j)
   \<and> ((\<exists>es. files w (loc w (final_dir_of w job_dir)) = Some (Dir es)
            \<and> (\<exists>n \<in> set es. ends_with n (lit ''.pdb''))) \<longrightarrow>
        generated_files w job_dir \<noteq> []
        \<and> ends_with (path_name (hd (generated_files w job_dir))) (lit ''.pdb''))"
proof (intro conjI allI impI)
  define A where "A = path_glob w (final_dir_of w job_dir) (lit ''.pdb'')"
  define B where "B = path_glob w (final_dir_of w job_dir) (lit ''.cif'')"
  have gf: "generated_files w job_dir = A @ B"
    by (simp add: generated_files_def A_def B_def)
  have inA: "ends_with (path_name f) (lit ''.pdb'')" if "f \<in> set A" for f
    using path_glob_names [of f w "final_dir_of w job_dir" "lit ''.pdb''"] that
    by (auto simp: A_def path_name_child)
  have inB: "ends_with (path_name f) (lit ''.cif'')" if "f \<in> set B" for f
    using path_glob_names [of f w "final_dir_of w job_dir" "lit ''.cif''"] that
    by (auto simp: B_def path_name_child)
  {
    fix i j
    assume h: "i < length (generated_files w job_dir) \<and> j < length (generated_files w job_dir)
        \<and> ends_with (path_name (generated_files w job_dir ! i)) (lit ''.pdb'')
        \<and> ends_with (path_name (generated_files w job_dir ! j)) (lit ''.cif'')"
    have i: "i < length A"
    proof (rule ccontr)
      assume "\<not> i < length A"
      moreover from h have "i < length A + length B"
        by (simp add: gf)
      ultimately have "i - length A < length B" "(A @ B) ! i = B ! (i - length A)"
        by (simp_all add: nth_append)
      then have "(A @ B) ! i \<in> set B"
        by simp
      then show False using h inB not_pdb_and_cif by (auto simp: gf)
    qed
    have j: "\<not> j < length A"
    proof
      assume "j < length A"
      then have "(A @ B) ! j \<in> set A"
        by (simp add: nth_append)
      then show False using h inA not_pdb_and_cif by (auto simp: gf)
    qed
    from i j show "i < j" by simp
  }
  {
    assume "\<exists>es. files w (loc w (final_dir_of w job_dir)) = Some (Dir es)
            \<and> (\<exists>n \<in> set es. ends_with n (lit ''.pdb''))"
    then have ne: "A \<noteq> []"
      by (auto simp: A_def path_glob_def filter_empty_conv)
    then show "generated_files w job_dir \<noteq> []" by (simp add: gf)
    from ne have "hd (A @ B) \<in> set A" by simp
    then show "ends_with (path_name (hd (generated_files w job_dir))) (lit ''.pdb'')"
      using inA by (simp add: gf)
  }
qed

section \<open>The pipeline before the tool is started\<close>

lemma loc_same_cwd: "cwd w1 = cwd w \<Longrightarrow> loc w1 p = loc w p"
  by (cases p) (simp_all add: loc_def)

lemma mkdir_exist_ok_frame:
  assumes "mkdir_exist_ok p w = Inr w1"
  shows "cwd w1 = cwd w" and "launched w1 = launched w" and "console w1 = console w"
    and "\<exists>es. files w1 (loc w p) = Some (Dir es)"
    and "\<And>s c. files w s = Some (File c) \<Longrightarrow> files w1 s = Some (File c)"
    and "\<And>s. files w s = None \<Longrightarrow> files w1 s = None \<or> files w1 s = Some (Dir [])"
  using assms
  by (auto simp: mkdir_exist_ok_def create_node_def Let_def
      split: option.splits node.splits if_splits)

lemma shutil_copy_unopenable:
  assumes "files w s = None \<or> files w s = Some (Dir es) \<or> files w s = Some (File Denied)"
    and "s = loc w (parse_path src)"
  shows "\<exists>ex. shutil_copy src dst w = Inl ex"
  using assms by (auto simp: shutil_copy_def Let_def)

lemma run_None:
  "run_boltzgen_task e None tc bmin bmax hs cyc prot nd bud st w =
     (case mkdir_exist_ok (job_dir_of e) w of
        Inl ex \<Rightarrow> (Raised ex, w)
      | Inr w1 \<Rightarrow>
          (Returned (None, [38169, 35823, 65306, 35831, 20808, 19978, 20256] @ lit '' PDB ''
               @ [25991, 20214]), w1))"
  by (simp add: run_boltzgen_task_def Let_def split: sum.splits)

lemma run_copy_fails:
  assumes "mkdir_exist_ok (job_dir_of e) w = Inr w1"
    and "shutil_copy (name f) (path_div (job_dir_of e) (path_name (parse_path (name f)))) w1 = Inl ex"
  shows "run_boltzgen_task e (Some f) tc bmin bmax hs cyc prot nd bud st w = (Raised ex, w1)"
  using assms by (simp add: run_boltzgen_task_def Let_def)

lemma run_mkdir_fails:
  assumes "mkdir_exist_ok (job_dir_of e) w = Inl ex"
  shows "run_boltzgen_task e inp tc bmin bmax hs cyc prot nd bud st w = (Raised ex, w)"
  using assms by (simp add: run_boltzgen_task_def Let_def)

text \<open>
  C3, as the code has it. With no input file (\<open>None\<close>), once the job directory is made,
  the pipeline returns no visualization and the message that asks for an upload, and it
  has started no process. With an input file that does not exist or cannot be opened, no
  process is started either.
\<close>

theorem missing_input_never_reaches_tool:
  "(mkdir_exist_ok (job_dir_of e) w = Inr w1 \<longrightarrow>
      run_boltzgen_task e None tc bmin bmax hs cyc prot nd bud st w
        = (Returned (None, [38169, 35823, 65306, 35831, 20808, 19978, 20256] @ lit '' PDB ''
               @ [25991, 20214]), w1)
      \<and> launched w1 = launched w)
   \<and> launched (snd (run_boltzgen_task e None tc bmin bmax hs cyc prot nd bud st w)) = launched w
   \<and> (files w (loc w (parse_path (name f))) = None
        \<or> files w (loc w (parse_path (name f))) = Some (File Denied) \<longrightarrow>
      launched (snd (run_boltzgen_task e (Some f) tc bmin bmax hs cyc prot nd bud st w)) = launched w)"
proof (intro conjI impI)
  assume mk: "mkdir_exist_ok (job_dir_of e) w = Inr w1"
  then show "run_boltzgen_task e None tc bmin bmax hs cyc prot nd bud st w
        = (Returned (None, [38169, 35823, 65306, 35831, 20808, 19978, 20256] @ lit '' PDB ''
               @ [25991, 20214]), w1)"
    by (simp add: run_None)
  from mk show "launched w1 = launched w"
    by (rule mkdir_exist_ok_frame)
next
  show "launched (snd (run_boltzgen_task e None tc bmin bmax hs cyc prot nd bud st w)) = launched w"
    by (auto simp: run_None split: sum.splits dest: mkdir_exist_ok_frame(2))
next
  assume miss: "files w (loc w (parse_path (name f))) = None
        \<or> files w (loc w (parse_path (name f))) = Some (File Denied)"
  show "launched (snd (run_boltzgen_task e (Some f) tc bmin bmax hs cyc prot nd bud st w)) = launched w"
  proof (cases "mkdir_exist_ok (job_dir_of e) w")
    case (Inl ex)
    then show ?thesis by (simp add: run_mkdir_fails)
  next
    case (Inr w1)
    have c: "cwd w1 = cwd w" using Inr by (rule mkdir_exist_ok_frame)
    then have l: "loc w1 (parse_path (name f)) = loc w (parse_path (name f))"
      by (rule loc_same_cwd)
    let ?s = "loc w (parse_path (name f))"
    have st: "files w1 ?s = None \<or> files w1 ?s = Some (Dir []) \<or> files w1 ?s = Some (File Denied)"
    proof (cases "files w ?s = None")
      case True
      from mkdir_exist_ok_frame(6) [OF Inr True] show ?thesis
        by (elim disjE) simp_all
    next
      case False
      with miss have "files w ?s = Some (File Denied)" by simp
      then show ?thesis using mkdir_exist_ok_frame(5) [OF Inr, of ?s Denied] by simp
    qed
    have "\<exists>ex. shutil_copy (name f) (path_div (job_dir_of e) (path_name (parse_path (name f)))) w1 = Inl ex"
      by (rule shutil_copy_unopenable [where s = ?s and es = "[]"]) (simp_all add: st l)
    then obtain ex where
      "shutil_copy (name f) (path_div (job_dir_of e) (path_name (parse_path (name f)))) w1 = Inl ex"
      by (elim exE)
    then have "run_boltzgen_task e (Some f) tc bmin bmax hs cyc prot nd bud st w = (Raised ex, w1)"
      using Inr by (rule run_copy_fails [rotated])
    then show ?thesis
      using mkdir_exist_ok_frame(2) [OF Inr] by simp
  qed
qed

section \<open>The sample run, step by step\<close>

lemma mkdir_exist_ok_fresh:
  assumes "files w (loc w p) = None" and "files w (butlast (loc w p)) = Some (Dir es)"
  shows "mkdir_exist_ok p w =
           Inr (w\<lparr>files := (files w)(butlast (loc w p) \<mapsto> Dir (es @ [last (loc w p)]),
                                     loc w p \<mapsto> Dir [])\<rparr>)"
  using assms by (simp add: mkdir_exist_ok_def create_node_def Let_def)



lemma demo_job: "job_dir_of demo_env = demo_job_dir"
proof -
  have "take 8 (uuid4_str demo_env) = lit ''3f2a9c1e''"
    by (simp add: demo_env_def take_lit)
  then have "job_dir_of demo_env = path_div BASE_WORK_DIR (lit ''run_3f2a9c1e'')"
    by (simp add: job_dir_of_def lit_append)
  also have "\<dots> = path_child BASE_WORK_DIR (lit ''run_3f2a9c1e'')"
    by (rule path_div_single) simp_all
  finally show ?thesis
    by (simp add: BASE_WORK_DIR_parts path_child_def demo_job_dir_def)
qed

lemma loc_demo_job: "cwd w = [lit ''srv''] \<Longrightarrow> loc w demo_job_dir = demo_job_loc"
  by (simp add: loc_def demo_job_dir_def demo_job_loc_def)

lemma demo_mkdir:
  "mkdir_exist_ok demo_job_dir demo_world =
     Inr (demo_world\<lparr>files := demo_tree
        ([lit ''srv'', lit ''gradio_workspace''] \<mapsto> Dir [lit ''run_3f2a9c1e''],
         demo_job_loc \<mapsto> Dir [])\<rparr>)"
proof -
  have l: "loc demo_world demo_job_dir = demo_job_loc"
    by (rule loc_demo_job) (simp add: demo_world_def)
  have a: "files demo_world (loc demo_world demo_job_dir) = None"
    unfolding l by (simp add: demo_world_def demo_tree_def demo_job_loc_def)
  have b: "files demo_world (butlast (loc demo_world demo_job_dir)) = Some (Dir [])"
    unfolding l by (simp add: demo_world_def demo_tree_def demo_job_loc_def)
  show ?thesis
    unfolding mkdir_exist_ok_fresh [OF a b] l
    by (simp add: demo_world_def demo_job_loc_def)
qed

text \<open>
  The claim C3 as worded fails for a file that was supplied but is gone: the copy of
  line 164 is outside every \<open>try\<close>, so the pipeline does not return an error message, it
  lets \<open>FileNotFoundError\<close> escape.
\<close>

theorem missing_input_raises:
  "fst (run_boltzgen_task demo_env (Some demo_missing_upload) (lit ''A'') 8 16 (lit ''12,14'')
         False (lit ''peptide-anything'') 2 1 50 demo_world)
     = Raised (FileNotFoundError [lit ''tmp'', lit ''gone.pdb''])"
proof -
  let ?w1 = "demo_world\<lparr>files := demo_tree
        ([lit ''srv'', lit ''gradio_workspace''] \<mapsto> Dir [lit ''run_3f2a9c1e''],
         demo_job_loc \<mapsto> Dir [])\<rparr>"
  have p: "parse_path (name demo_missing_upload) = Abs [lit ''tmp'', lit ''gone.pdb'']"
    by (simp add: demo_missing_upload_def parse_path_def lit_def SLASH_def)
  have "files ?w1 [lit ''tmp'', lit ''gone.pdb''] = None"
    by (simp add: demo_tree_def demo_job_loc_def)
  then have "shutil_copy (name demo_missing_upload)
        (path_div demo_job_dir (path_name (parse_path (name demo_missing_upload)))) ?w1
      = Inl (FileNotFoundError [lit ''tmp'', lit ''gone.pdb''])"
    by (simp add: shutil_copy_def p loc_def Let_def)
  then show ?thesis
    using run_copy_fails [of demo_env demo_world ?w1 demo_missing_upload]
    by (simp add: demo_job demo_mkdir)
qed


text \<open>The sample run without an upload, and with an upload that is gone.\<close>

theorem missing_input_never_reaches_tool_witness:
  "run_boltzgen_task demo_env None (lit ''A'') 8 16 (lit ''12,14'') False
       (lit ''peptide-anything'') 2 1 50 demo_world
     = (Returned (None, [38169, 35823, 65306, 35831, 20808, 19978, 20256] @ lit '' PDB ''
               @ [25991, 20214]),
        demo_world\<lparr>files := demo_tree
          ([lit ''srv'', lit ''gradio_workspace''] \<mapsto> Dir [lit ''run_3f2a9c1e''],
           demo_job_loc \<mapsto> Dir [])\<rparr>)
   \<and> launched (snd (run_boltzgen_task demo_env (Some demo_missing_upload) (lit ''A'') 8 16
         (lit ''12,14'') False (lit ''peptide-anything'') 2 1 50 demo_world)) = []"
proof -
  let ?w1 = "demo_world\<lparr>files := demo_tree
        ([lit ''srv'', lit ''gradio_workspace''] \<mapsto> Dir [lit ''run_3f2a9c1e''],
         demo_job_loc \<mapsto> Dir [])\<rparr>"
  note t = missing_input_never_reaches_tool [of demo_env demo_world ?w1 "lit ''A''" 8 16
      "lit ''12,14''" False "lit ''peptide-anything''" 2 1 50 demo_missing_upload]
  have mk: "mkdir_exist_ok (job_dir_of demo_env) demo_world = Inr ?w1"
    by (simp add: demo_job demo_mkdir)
  have p: "parse_path (name demo_missing_upload) = Abs [lit ''tmp'', lit ''gone.pdb'']"
    by (simp add: demo_missing_upload_def parse_path_def lit_def SLASH_def)
  have miss: "files demo_world (loc demo_world (parse_path (name demo_missing_upload))) = None"
    by (simp add: p loc_def demo_world_def demo_tree_def)
  have l: "launched demo_world = []"
    by (simp add: demo_world_def)
  from t mk have "run_boltzgen_task demo_env None (lit ''A'') 8 16 (lit ''12,14'') False
       (lit ''peptide-anything'') 2 1 50 demo_world
     = (Returned (None, [38169, 35823, 65306, 35831, 20808, 19978, 20256] @ lit '' PDB ''
               @ [25991, 20214]), ?w1)"
    by blast
  moreover from t miss have "launched (snd (run_boltzgen_task demo_env (Some demo_missing_upload)
       (lit ''A'') 8 16 (lit ''12,14'') False (lit ''peptide-anything'') 2 1 50 demo_world))
     = launched demo_world"
    by blast
  ultimately show ?thesis
    by (simp only: l simp_thms)
qed

lemma loc_job_dir_of:
  assumes "SLASH \<notin> set (take 8 (uuid4_str e))"
  shows "loc w (job_dir_of e) = loc w BASE_WORK_DIR @ [lit ''run_'' @ take 8 (uuid4_str e)]"
  by (simp add: job_dir_of_parts [OF assms] BASE_WORK_DIR_parts loc_def)

text \<open>
  C9. When the UUID text has no slash in its first eight characters, the base directory
  exists and the job directory does not exist yet, a submission without input file returns
  the missing-input message and leaves a world that differs from the one it started in:
  the job directory now exists, empty. The same directory exists after a submission whose
  input file is missing. The directory is made before the input is looked at.
\<close>

theorem job_directory_created_before_validation:
  assumes "SLASH \<notin> set (take 8 (uuid4_str e))"
    and "files w (loc w BASE_WORK_DIR) = Some (Dir es)"
    and "files w (loc w (job_dir_of e)) = None"
  shows "fst (run_boltzgen_task e None tc bmin bmax hs cyc prot nd bud st w)
           = Returned (None, [38169, 35823, 65306, 35831, 20808, 19978, 20256] @ lit '' PDB ''
               @ [25991, 20214])
       \<and> files (snd (run_boltzgen_task e None tc bmin bmax hs cyc prot nd bud st w))
             (loc w (job_dir_of e)) = Some (Dir [])
       \<and> snd (run_boltzgen_task e None tc bmin bmax hs cyc prot nd bud st w) \<noteq> w
       \<and> (files w (loc w (parse_path (name f))) = None \<longrightarrow>
            files (snd (run_boltzgen_task e (Some f) tc bmin bmax hs cyc prot nd bud st w))
              (loc w (job_dir_of e)) = Some (Dir []))"
proof -
  let ?q = "loc w (job_dir_of e)"
  let ?w1 = "w\<lparr>files := (files w)(butlast ?q \<mapsto> Dir (es @ [last ?q]), ?q \<mapsto> Dir [])\<rparr>"
  have par: "butlast ?q = loc w BASE_WORK_DIR"
    by (simp add: loc_job_dir_of [OF assms(1)])
  have mk: "mkdir_exist_ok (job_dir_of e) w = Inr ?w1"
    by (rule mkdir_exist_ok_fresh) (simp_all add: assms par)
  have r: "run_boltzgen_task e None tc bmin bmax hs cyc prot nd bud st w
      = (Returned (None, [38169, 35823, 65306, 35831, 20808, 19978, 20256] @ lit '' PDB ''
               @ [25991, 20214]), ?w1)"
    by (simp add: run_None mk)
  have f1: "files ?w1 ?q = Some (Dir [])"
    by simp
  have ne: "?w1 \<noteq> w"
  proof
    assume "?w1 = w"
    then have "files ?w1 ?q = files w ?q" by simp
    then show False using assms(3) by simp
  qed
  have some: "files (snd (run_boltzgen_task e (Some f) tc bmin bmax hs cyc prot nd bud st w)) ?q
      = Some (Dir [])" if miss: "files w (loc w (parse_path (name f))) = None"
  proof -
    let ?s = "loc w (parse_path (name f))"
    have l: "loc ?w1 (parse_path (name f)) = ?s"
      by (rule loc_same_cwd) simp
    from mkdir_exist_ok_frame(6) [OF mk miss]
    have "files ?w1 ?s = None \<or> files ?w1 ?s = Some (Dir []) \<or> files ?w1 ?s = Some (File Denied)"
      by (elim disjE) simp_all
    then have "\<exists>ex. shutil_copy (name f)
        (path_div (job_dir_of e) (path_name (parse_path (name f)))) ?w1 = Inl ex"
      by (rule shutil_copy_unopenable [where s = ?s and es = "[]"]) (simp add: l)
    then obtain ex where "shutil_copy (name f)
        (path_div (job_dir_of e) (path_name (parse_path (name f)))) ?w1 = Inl ex"
      by (elim exE)
    with mk have "run_boltzgen_task e (Some f) tc bmin bmax hs cyc prot nd bud st w = (Raised ex, ?w1)"
      by (rule run_copy_fails)
    then show ?thesis using f1 by simp
  qed
  show ?thesis
    using r f1 ne some by simp
qed

text \<open>The sample run: the job directory is absent before and present after.\<close>

theorem job_directory_created_before_validation_witness:
  "fst (run_boltzgen_task demo_env None (lit ''A'') 8 16 (lit ''12,14'') False
          (lit ''peptide-anything'') 2 1 50 demo_world)
     = Returned (None, [38169, 35823, 65306, 35831, 20808, 19978, 20256] @ lit '' PDB ''
               @ [25991, 20214])
   \<and> files demo_world demo_job_loc = None
   \<and> files (snd (run_boltzgen_task demo_env None (lit ''A'') 8 16 (lit ''12,14'') False
          (lit ''peptide-anything'') 2 1 50 demo_world)) demo_job_loc = Some (Dir [])
   \<and> files (snd (run_boltzgen_task demo_env (Some demo_missing_upload) (lit ''A'') 8 16
          (lit ''12,14'') False (lit ''peptide-anything'') 2 1 50 demo_world)) demo_job_loc
       = Some (Dir [])"
proof -
  have u: "SLASH \<notin> set (take 8 (uuid4_str demo_env))"
    by (simp add: demo_env_def take_lit)
  have b: "files demo_world (loc demo_world BASE_WORK_DIR) = Some (Dir [])"
    by (simp add: BASE_WORK_DIR_parts loc_def demo_world_def demo_tree_def)
  have l: "loc demo_world (job_dir_of demo_env) = demo_job_loc"
    unfolding demo_job by (rule loc_demo_job) (simp add: demo_world_def)
  have n: "files demo_world demo_job_loc = None"
    by (simp add: demo_world_def demo_tree_def demo_job_loc_def)
  have p: "parse_path (name demo_missing_upload) = Abs [lit ''tmp'', lit ''gone.pdb'']"
    by (simp add: demo_missing_upload_def parse_path_def lit_def SLASH_def)
  have miss: "files demo_world (loc demo_world (parse_path (name demo_missing_upload))) = None"
    by (simp add: p loc_def demo_world_def demo_tree_def)
  note t = job_directory_created_before_validation [OF u b, unfolded l, OF n,
      of "lit ''A''" 8 16 "lit ''12,14''" False "lit ''peptide-anything''" 2 1 50 demo_missing_upload]
  from t miss n show ?thesis
    by blast
qed

section \<open>The exit code and the outcome\<close>












lemma boltzgen_cmd_cwd:
  "cwd w = cwd w' \<Longrightarrow> boltzgen_cmd w yp jd prot nd bud st = boltzgen_cmd w' yp jd prot nd bud st"
  using loc_same_cwd [of w w' yp] loc_same_cwd [of w w' jd]
  by (simp add: boltzgen_cmd_def path_absolute_def)









section \<open>The sample run up to the start of the tool\<close>











section \<open>The sample run after the tool\<close>














section \<open>The collection on sample file trees\<close>

lemma demo_ranked_lookup:
  "cwd demo_ranked_world = [lit ''srv'']"
  "files demo_ranked_world (demo_job_loc @ [lit ''final_ranked_designs''])
     = Some (Dir [lit ''rank_1.cif'', lit ''scores.csv'', lit ''rank_0.pdb''])"
  by (simp_all add: demo_ranked_world_def)

lemma demo_unranked_lookup:
  "cwd demo_unranked_world = [lit ''srv'']"
  "files demo_unranked_world (demo_job_loc @ [lit ''final_ranked_designs''])
     = Some (Dir [lit ''scores.csv''])"
  by (simp_all add: demo_unranked_world_def)

lemma demo_world_lookup:
  "cwd demo_world = [lit ''srv'']"
  "files demo_world (demo_job_loc @ [lit ''final_ranked_designs'']) = None"
  "files demo_world (demo_job_loc @ [lit ''intermediate_designs'']) = None"
  by (simp_all add: demo_world_def demo_tree_def demo_job_loc_def)

text \<open>
  Three file trees: both directories with structure files (only the ranked ones are
  returned, the \<open>.pdb\<close> one first), a ranked directory without structure files (nothing is
  returned, the other directory is not consulted), and neither directory.
\<close>

theorem result_location_fallback_witness:
  "generated_files demo_ranked_world demo_job_dir
     = [path_child (path_child demo_job_dir (lit ''final_ranked_designs'')) (lit ''rank_0.pdb''),
        path_child (path_child demo_job_dir (lit ''final_ranked_designs'')) (lit ''rank_1.cif'')]
   \<and> generated_files demo_unranked_world demo_job_dir = []
   \<and> generated_files demo_world demo_job_dir = []"
proof -
  note t1 = result_location_fallback [of demo_ranked_world demo_job_dir,
      unfolded path_div_final path_div_intermediate]
  note t2 = result_location_fallback [of demo_unranked_world demo_job_dir,
      unfolded path_div_final path_div_intermediate]
  note t3 = result_location_fallback [of demo_world demo_job_dir,
      unfolded path_div_final path_div_intermediate]
  have e1: "path_exists demo_ranked_world (path_child demo_job_dir (lit ''final_ranked_designs''))"
    by (simp add: path_exists_def loc_child loc_demo_job demo_ranked_lookup)
  have g1: "path_glob demo_ranked_world (path_child demo_job_dir (lit ''final_ranked_designs''))
        (lit ''.pdb'')
      = [path_child (path_child demo_job_dir (lit ''final_ranked_designs'')) (lit ''rank_0.pdb'')]"
    by (simp add: path_glob_def loc_child loc_demo_job demo_ranked_lookup)
  have g2: "path_glob demo_ranked_world (path_child demo_job_dir (lit ''final_ranked_designs''))
        (lit ''.cif'')
      = [path_child (path_child demo_job_dir (lit ''final_ranked_designs'')) (lit ''rank_1.cif'')]"
    by (simp add: path_glob_def loc_child loc_demo_job demo_ranked_lookup)
  from t1 e1 have "generated_files demo_ranked_world demo_job_dir
      = path_glob demo_ranked_world (path_child demo_job_dir (lit ''final_ranked_designs'')) (lit ''.pdb'')
        @ path_glob demo_ranked_world (path_child demo_job_dir (lit ''final_ranked_designs'')) (lit ''.cif'')"
    by blast
  then have c1: "generated_files demo_ranked_world demo_job_dir
     = [path_child (path_child demo_job_dir (lit ''final_ranked_designs'')) (lit ''rank_0.pdb''),
        path_child (path_child demo_job_dir (lit ''final_ranked_designs'')) (lit ''rank_1.cif'')]"
    by (simp only: g1 g2 append.simps)
  have f2: "final_dir_of demo_unranked_world demo_job_dir
      = path_child demo_job_dir (lit ''final_ranked_designs'')"
    by (simp add: final_dir_of_def path_div_final path_exists_def loc_child loc_demo_job
        demo_unranked_lookup)
  have h2: "\<forall>es. files demo_unranked_world (loc demo_unranked_world
          (final_dir_of demo_unranked_world demo_job_dir)) = Some (Dir es) \<longrightarrow>
        (\<forall>n \<in> set es. \<not> ends_with n (lit ''.pdb'') \<and> \<not> ends_with n (lit ''.cif''))"
    unfolding f2 by (simp add: loc_child loc_demo_job demo_unranked_lookup)
  from t2 h2 have c2: "generated_files demo_unranked_world demo_job_dir = []"
    by blast
  have e3: "\<not> path_exists demo_world (path_child demo_job_dir (lit ''final_ranked_designs''))
      \<and> \<not> path_exists demo_world (path_child demo_job_dir (lit ''intermediate_designs''))"
    by (simp add: path_exists_def loc_child loc_demo_job demo_world_lookup)
  from t3 e3 have c3: "generated_files demo_world demo_job_dir = []"
    by blast
  from c1 c2 c3 show ?thesis
    by (intro conjI)
qed

text \<open>The ranked directory lists a \<open>.cif\<close> file first; the file chosen is the \<open>.pdb\<close> one.\<close>

theorem pdb_files_precede_cif_files_witness:
  "generated_files demo_ranked_world demo_job_dir \<noteq> []
   \<and> ends_with (path_name (hd (generated_files demo_ranked_world demo_job_dir))) (lit ''.pdb'')"
proof -
  have f: "final_dir_of demo_ranked_world demo_job_dir
      = path_child demo_job_dir (lit ''final_ranked_designs'')"
    by (simp add: final_dir_of_def path_div_final path_exists_def loc_child loc_demo_job
        demo_ranked_lookup)
  have h: "\<exists>es. files demo_ranked_world (loc demo_ranked_world
          (final_dir_of demo_ranked_world demo_job_dir)) = Some (Dir es)
        \<and> (\<exists>n \<in> set es. ends_with n (lit ''.pdb''))"
    unfolding f by (simp add: loc_child loc_demo_job demo_ranked_lookup)
  from pdb_files_precede_cif_files [of demo_ranked_world demo_job_dir] h
  show ?thesis
    by blast
qed

end
